theory Spec2Isabelle
  imports Complex_Main
begin

section \<open>The real-time client of token-bowl-chat (websocket_client_v3.py)\<close>

text \<open>
  A shallow embedding of the class \<open>TokenBowlWebSocket\<close>. The object is a record, every
  method is a function from the object to a result and the updated object, and every
  \<^verbatim>\<open>raise\<close> is the left injection of the result. What the methods do to the outside
  world (requests, calls into the pub/sub client, callbacks, log lines) is appended to the
  field \<open>trace\<close> of the object, oldest first. What the outside world answers (the HTTP
  response, what the pub/sub client does during a call) is an argument of the method.
\<close>

subsection \<open>Exceptions, JSON values, effects\<close>

text \<open>
  The subclasses of Python's \<^verbatim>\<open>Exception\<close> that the module raises or meets.
  \<open>NetworkError msg e\<close> is \<^verbatim>\<open>raise NetworkError(msg) from e\<close>; \<open>TimeoutError\<close> is the
  builtin (the module imports only \<open>AuthenticationError\<close> and \<open>NetworkError\<close> from the
  package). \<open>HTTPStatusError\<close> is what \<^verbatim>\<open>raise_for_status()\<close> of httpx raises, with the
  status code; \<open>RequestError\<close> is any failure of the request itself (no connection,
  timeout), with its class name. \<open>OtherException\<close> stands for any further subclass of
  \<^verbatim>\<open>Exception\<close>, as raised by a callback of the caller, by the pub/sub client or by the
  message model. Exceptions outside \<^verbatim>\<open>Exception\<close> (cancellation of the task) are not
  modelled.
\<close>

datatype exn =
    AuthenticationError string
  | NetworkError string exn
  | TimeoutError string
  | HTTPStatusError nat
  | RequestError string
  | JSONDecodeError
  | KeyError string
  | TypeError
  | OtherException string

text \<open>
  Decoded JSON, as \<^verbatim>\<open>response.json()\<close> and \<^verbatim>\<open>context.data\<close> give it. A JSON object
  is the list of the items of the Python dict (keys distinct); numbers are integers here.
\<close>

datatype json =
    JNull
  | JBool bool
  | JNum int
  | JStr string
  | JArr "json list"
  | JObj "(string \<times> json) list"

text \<open>\<^verbatim>\<open>x[key]\<close> for a string key: only a dict can be subscripted by a string.\<close>

fun py_getitem :: "json option \<Rightarrow> string \<Rightarrow> exn + json" where
  "py_getitem (Some (JObj kvs)) k =
     (case map_of kvs k of None \<Rightarrow> Inl (KeyError k) | Some v \<Rightarrow> Inr v)"
| "py_getitem x k = Inl TypeError"

text \<open>
  \<^verbatim>\<open>for channel in x\<close>: a list gives its elements, a dict its keys, a string its
  characters; the other values are not iterable.
\<close>

fun py_iter :: "json \<Rightarrow> exn + json list" where
  "py_iter (JArr xs) = Inr xs"
| "py_iter (JObj kvs) = Inr (map (\<lambda>kv. JStr (fst kv)) kvs)"
| "py_iter (JStr s) = Inr (map (\<lambda>c. JStr [c]) s)"
| "py_iter x = Inl TypeError"

datatype level = Debug | Info | Error

datatype arg = NoArg | ExnArg exn | JsonArg json | StrArg string

text \<open>
  The observable effects. \<open>Log l msg a\<close> is a call of the logger with the fixed part of
  the message and the value formatted into it. A request carries its URL and the value
  of the \<^verbatim>\<open>X-API-Key\<close> header.
\<close>

datatype 'm effect =
    HttpGet string "string option"
  | HttpPost string "string option" "json option"
  | Log level string arg
  | CallOnConnect
  | CallOnDisconnect
  | CallOnError exn
  | CallOnMessage 'm
  | NewClient json json
  | ClientConnect
  | ClientDisconnect
  | NewSubscription json
  | Subscribe json

subsection \<open>What the outside world answers\<close>

text \<open>
  The outcome of one httpx request: the request itself fails (connection refused,
  timeout, ...), or a response arrives, with its status code and its body decoded as
  JSON (\<open>None\<close> when the body is not JSON, so that \<^verbatim>\<open>response.json()\<close> raises).
\<close>

datatype http_outcome =
    RequestFails exn
  | Response nat "json option"

text \<open>httpx: \<^verbatim>\<open>raise_for_status()\<close> raises unless the status is 2xx.\<close>

definition is_success :: "nat \<Rightarrow> bool" where
  "is_success status = (200 \<le> status \<and> status \<le> 299)"

definition raise_for_status :: "nat \<Rightarrow> exn + unit" where
  "raise_for_status status =
     (if is_success status then Inr () else Inl (HTTPStatusError status))"

text \<open>
  The lifecycle notifications of the pub/sub client, for which \<open>connect\<close> registers the
  handlers \<open>on_connected\<close>, \<open>on_disconnected\<close> and \<open>on_error_event\<close>.
\<close>

datatype notification = Connected | Disconnected | ErrorEvent exn

text \<open>
  One call of \<^verbatim>\<open>client.connect()\<close> or \<^verbatim>\<open>client.disconnect()\<close> of the pub/sub client:
  the notifications it delivers to the registered handlers while the call runs, in
  order, and then whether the call returns or raises. The pub/sub client is a library
  outside this repository, so both are arguments. What it does with an exception of a
  handler is its own business: a client that lets it escape from the call is the case
  where \<open>call_result\<close> is that exception and \<open>delivered\<close> ends with that notification.
\<close>

record transport_call =
  delivered :: "notification list"
  call_result :: "exn + unit"

text \<open>
  What the pub/sub client does for one channel in \<open>_subscribe_channel\<close>:
  \<^verbatim>\<open>new_subscription(channel)\<close> raises, or it returns and \<^verbatim>\<open>subscribe()\<close> raises, or both
  return.
\<close>

datatype sub_result =
    NewSubscriptionRaises exn
  | SubscribeRaises exn
  | Subscribed

record connect_env =
  bootstrap :: http_outcome
  create_client :: "exn + unit"
  handshake :: transport_call

subsection \<open>The object\<close>

text \<open>
  A callback of the caller is modelled by its outcome: it returns, or it raises. The
  callbacks \<open>on_read_receipt\<close>, \<open>on_unread_count\<close> and \<open>on_typing\<close> are stored by
  \<open>__init__\<close> and never read again, so they are left out. The type \<open>'m\<close> is the message
  model \<open>MessageResponse\<close>, which the package declares in its module \<open>models\<close>. The
  private fields \<open>_client\<close>, \<open>_connection_info\<close> and \<open>_connected\<close> are \<open>priv_client\<close>,
  \<open>priv_connection_info\<close> and \<open>priv_connected\<close>; the client handle is represented by the
  endpoint and the token it was created with.
\<close>

record 'm ws =
  api_key :: "string option"
  base_url :: string
  on_message :: "('m \<Rightarrow> exn + unit) option"
  on_connect :: "(exn + unit) option"
  on_disconnect :: "(exn + unit) option"
  on_error :: "(exn \<Rightarrow> exn + unit) option"
  priv_client :: "(json \<times> json) option"
  priv_connection_info :: "json option"
  priv_connected :: bool
  trace :: "'m effect list"

definition emit :: "'m effect \<Rightarrow> 'm ws \<Rightarrow> 'm ws" where
  "emit e s = s\<lparr>trace := trace s @ [e]\<rparr>"

text \<open>\<^verbatim>\<open>a or b\<close> on optional strings: \<open>None\<close> and the empty string are falsy.\<close>

fun py_or :: "string option \<Rightarrow> string option \<Rightarrow> string option" where
  "py_or None b = b"
| "py_or (Some k) b = (if k = [] then b else Some k)"

definition rstrip :: "char \<Rightarrow> string \<Rightarrow> string" where
  "rstrip c s = rev (dropWhile (\<lambda>x. x = c) (rev s))"

text \<open>
  \<open>__init__\<close>; \<open>env_key\<close> is the value of the environment variable
  \<^verbatim>\<open>TOKEN_BOWL_CHAT_API_KEY\<close>.
\<close>

definition init ::
  "string option \<Rightarrow> string option \<Rightarrow> string \<Rightarrow> ('m \<Rightarrow> exn + unit) option \<Rightarrow>
   (exn + unit) option \<Rightarrow> (exn + unit) option \<Rightarrow> (exn \<Rightarrow> exn + unit) option \<Rightarrow> 'm ws" where
  "init key env_key url on_msg on_conn on_disc on_err =
     \<lparr> api_key = py_or key env_key,
       base_url = rstrip (CHR ''/'') url,
       on_message = on_msg,
       on_connect = on_conn,
       on_disconnect = on_disc,
       on_error = on_err,
       priv_client = None,
       priv_connection_info = None,
       priv_connected = False,
       trace = [] \<rparr>"

text \<open>\<^verbatim>\<open>not self.api_key\<close>\<close>

definition no_key :: "'m ws \<Rightarrow> bool" where
  "no_key s = (case api_key s of None \<Rightarrow> True | Some k \<Rightarrow> k = [])"

text \<open>
  The property \<open>connected\<close> of the class (HOL has a constant of that name, so it is
  \<open>connected_property\<close> here).
\<close>

definition connected_property :: "'m ws \<Rightarrow> bool" where
  "connected_property s = priv_connected s"

text \<open>
  \<^verbatim>\<open>try: body except Exception as e: handler\<close>. The body has run up to the raise, so the
  handler starts from the object as the body left it.
\<close>

definition try_except ::
  "(exn + 'a) \<times> 's \<Rightarrow> (exn \<Rightarrow> 's \<Rightarrow> (exn + 'a) \<times> 's) \<Rightarrow> (exn + 'a) \<times> 's" where
  "try_except body handler =
     (case body of (Inl e, s) \<Rightarrow> handler e s | (Inr v, s) \<Rightarrow> (Inr v, s))"

text \<open>Calling an optional nullary callback: \<^verbatim>\<open>if self.cb: self.cb()\<close>.\<close>

definition call0 :: "(exn + unit) option \<Rightarrow> 'm effect \<Rightarrow> 'm ws \<Rightarrow> (exn + unit) \<times> 'm ws" where
  "call0 cb e s = (case cb of None \<Rightarrow> (Inr (), s) | Some r \<Rightarrow> (r, emit e s))"

subsection \<open>Subscribing and the lifecycle handlers\<close>

definition subscribe_channel ::
  "(json \<Rightarrow> sub_result) \<Rightarrow> json \<Rightarrow> 'm ws \<Rightarrow> (exn + unit) \<times> 'm ws" where
  "subscribe_channel subs channel s =
     (case priv_client s of
        None \<Rightarrow> (Inr (), s)
      | Some c \<Rightarrow>
          (case subs channel of
             NewSubscriptionRaises e \<Rightarrow> (Inl e, emit (NewSubscription channel) s)
           | SubscribeRaises e \<Rightarrow>
               (Inl e, emit (Subscribe channel) (emit (NewSubscription channel) s))
           | Subscribed \<Rightarrow>
               (Inr (), emit (Log Info ''Subscribed to channel: '' (JsonArg channel))
                          (emit (Subscribe channel) (emit (NewSubscription channel) s)))))"

text \<open>
  The loop \<^verbatim>\<open>for channel in ...: await self._subscribe_channel(channel)\<close>: an exception
  of one iteration leaves the loop.
\<close>

fun subscribe_all ::
  "(json \<Rightarrow> sub_result) \<Rightarrow> json list \<Rightarrow> 'm ws \<Rightarrow> (exn + unit) \<times> 'm ws" where
  "subscribe_all subs [] s = (Inr (), s)"
| "subscribe_all subs (channel # rest) s =
     (case subscribe_channel subs channel s of
        (Inl e, s') \<Rightarrow> (Inl e, s')
      | (Inr u, s') \<Rightarrow> subscribe_all subs rest s')"

definition on_connected :: "(json \<Rightarrow> sub_result) \<Rightarrow> 'm ws \<Rightarrow> (exn + unit) \<times> 'm ws" where
  "on_connected subs s =
     (let s1 = emit (Log Info ''Connected to Centrifugo'' NoArg) (s\<lparr>priv_connected := True\<rparr>)
      in case call0 (on_connect s1) CallOnConnect s1 of
           (Inl e, s2) \<Rightarrow> (Inl e, s2)
         | (Inr u, s2) \<Rightarrow>
             (case py_getitem (priv_connection_info s2) ''channels'' of
                Inl e \<Rightarrow> (Inl e, s2)
              | Inr v \<Rightarrow>
                  (case py_iter v of
                     Inl e \<Rightarrow> (Inl e, s2)
                   | Inr channels \<Rightarrow> subscribe_all subs channels s2)))"

definition on_disconnected :: "'m ws \<Rightarrow> (exn + unit) \<times> 'm ws" where
  "on_disconnected s =
     (let s1 = emit (Log Info ''Disconnected from Centrifugo'' NoArg) (s\<lparr>priv_connected := False\<rparr>)
      in call0 (on_disconnect s1) CallOnDisconnect s1)"

definition on_error_event :: "exn \<Rightarrow> 'm ws \<Rightarrow> (exn + unit) \<times> 'm ws" where
  "on_error_event error s =
     (let s1 = emit (Log Error ''Centrifugo error: '' (ExnArg error)) s
      in case on_error s1 of
           None \<Rightarrow> (Inr (), s1)
         | Some cb \<Rightarrow> (cb error, emit (CallOnError error) s1))"

text \<open>The pub/sub client invoking the handler registered for a notification.\<close>

fun handle :: "(json \<Rightarrow> sub_result) \<Rightarrow> notification \<Rightarrow> 'm ws \<Rightarrow> (exn + unit) \<times> 'm ws" where
  "handle subs Connected s = on_connected subs s"
| "handle subs Disconnected s = on_disconnected s"
| "handle subs (ErrorEvent e) s = on_error_event e s"

text \<open>
  The notifications delivered during one call of the pub/sub client. The handlers run
  in order on the object; whether an exception of a handler ends the call is recorded in
  the \<open>call_result\<close> of the call, not here.
\<close>

fun deliver :: "(json \<Rightarrow> sub_result) \<Rightarrow> notification list \<Rightarrow> 'm ws \<Rightarrow> 'm ws" where
  "deliver subs [] s = s"
| "deliver subs (n # ns) s = deliver subs ns (snd (handle subs n s))"

subsection \<open>connect and disconnect\<close>

text \<open>The block \<^verbatim>\<open>async with httpx.AsyncClient() as client\<close> of \<open>connect\<close>.\<close>

definition fetch_connection_info :: "http_outcome \<Rightarrow> 'm ws \<Rightarrow> (exn + unit) \<times> 'm ws" where
  "fetch_connection_info outcome s =
     (let s1 = emit (HttpGet (base_url s @ ''/centrifugo/connection-token'') (api_key s)) s
      in case outcome of
           RequestFails e \<Rightarrow> (Inl e, s1)
         | Response status body \<Rightarrow>
             (case raise_for_status status of
                Inl e \<Rightarrow> (Inl e, s1)
              | Inr u \<Rightarrow>
                  (case body of
                     None \<Rightarrow> (Inl JSONDecodeError, s1)
                   | Some j \<Rightarrow> (Inr (), s1\<lparr>priv_connection_info := Some j\<rparr>))))"

text \<open>The body of the \<^verbatim>\<open>try\<close> of \<open>connect\<close>.\<close>

definition connect_body ::
  "(json \<Rightarrow> sub_result) \<Rightarrow> connect_env \<Rightarrow> 'm ws \<Rightarrow> (exn + unit) \<times> 'm ws" where
  "connect_body subs env s =
     (case fetch_connection_info (bootstrap env) s of
        (Inl e, s1) \<Rightarrow> (Inl e, s1)
      | (Inr u, s1) \<Rightarrow>
          (case py_getitem (priv_connection_info s1) ''url'' of
             Inl e \<Rightarrow> (Inl e, s1)
           | Inr url \<Rightarrow>
               (case py_getitem (priv_connection_info s1) ''token'' of
                  Inl e \<Rightarrow> (Inl e, s1)
                | Inr token \<Rightarrow>
                    (case create_client env of
                       Inl e \<Rightarrow> (Inl e, emit (NewClient url token) s1)
                     | Inr u \<Rightarrow>
                         (let s2 = (emit (NewClient url token) s1)\<lparr>priv_client := Some (url, token)\<rparr>;
                              s3 = deliver subs (delivered (handshake env)) (emit ClientConnect s2)
                          in (call_result (handshake env), s3))))))"

definition connect ::
  "(json \<Rightarrow> sub_result) \<Rightarrow> connect_env \<Rightarrow> 'm ws \<Rightarrow> (exn + unit) \<times> 'm ws" where
  "connect subs env s =
     (if no_key s
      then (Inl (AuthenticationError ''API key is required for WebSocket connection''), s)
      else try_except (connect_body subs env s)
             (\<lambda>e s'. (Inl (NetworkError ''Failed to connect to Centrifugo: '' e),
                       emit (Log Error ''Failed to connect to Centrifugo: '' (ExnArg e)) s')))"

definition disconnect ::
  "(json \<Rightarrow> sub_result) \<Rightarrow> transport_call \<Rightarrow> 'm ws \<Rightarrow> (exn + unit) \<times> 'm ws" where
  "disconnect subs call s =
     (case priv_client s of
        None \<Rightarrow> (Inr (), s)
      | Some c \<Rightarrow>
          (let s1 = deliver subs (delivered call) (emit ClientDisconnect s)
           in case call_result call of
                Inl e \<Rightarrow> (Inl e, s1)
              | Inr u \<Rightarrow> (Inr (), s1\<lparr>priv_client := None, priv_connected := False\<rparr>)))"

subsection \<open>Inbound publications\<close>

text \<open>
  The handler \<open>on_publication\<close> that \<open>_subscribe_channel\<close> attaches to a subscription.
  \<open>decode\<close> is the constructor call \<^verbatim>\<open>MessageResponse(**data)\<close>: it gives the message or
  raises (the payload is no mapping, a required field is missing, ...).
\<close>

definition on_publication_body ::
  "(json \<Rightarrow> exn + 'm) \<Rightarrow> json \<Rightarrow> 'm ws \<Rightarrow> (exn + unit) \<times> 'm ws" where
  "on_publication_body decode data s =
     (case on_message s of
        None \<Rightarrow> (Inr (), s)
      | Some cb \<Rightarrow>
          (case decode data of
             Inl e \<Rightarrow> (Inl e, s)
           | Inr message \<Rightarrow> (cb message, emit (CallOnMessage message) s)))"

definition on_publication ::
  "(json \<Rightarrow> exn + 'm) \<Rightarrow> json \<Rightarrow> 'm ws \<Rightarrow> (exn + unit) \<times> 'm ws" where
  "on_publication decode data s =
     try_except (on_publication_body decode data s)
       (\<lambda>e s'. (Inr (), emit (Log Error ''Error handling publication: '' (ExnArg e)) s'))"

text \<open>
  The publications of a subscription, handed to the handler one after the other. An
  exception that left the handler would end the delivery.
\<close>

fun publications ::
  "(json \<Rightarrow> exn + 'm) \<Rightarrow> json list \<Rightarrow> 'm ws \<Rightarrow> (exn + unit) \<times> 'm ws" where
  "publications decode [] s = (Inr (), s)"
| "publications decode (data # rest) s =
     (case on_publication decode data s of
        (Inl e, s') \<Rightarrow> (Inl e, s')
      | (Inr u, s') \<Rightarrow> publications decode rest s')"

subsection \<open>The request/response operations\<close>

definition send_message ::
  "string \<Rightarrow> string option \<Rightarrow> http_outcome \<Rightarrow> 'm ws \<Rightarrow> (exn + unit) \<times> 'm ws" where
  "send_message content to_username outcome s =
     (if no_key s then (Inl (AuthenticationError ''API key is required''), s)
      else try_except
             (let payload = JObj ((''content'', JStr content) #
                    (case to_username of
                       None \<Rightarrow> []
                     | Some u \<Rightarrow> if u = [] then [] else [(''to_username'', JStr u)]));
                  s1 = emit (HttpPost (base_url s @ ''/messages'') (api_key s) (Some payload)) s
              in case outcome of
                   RequestFails e \<Rightarrow> (Inl e, s1)
                 | Response status body \<Rightarrow>
                     (case raise_for_status status of
                        Inl e \<Rightarrow> (Inl e, s1)
                      | Inr u \<Rightarrow> (Inr (), emit (Log Debug ''Sent message via REST API'' NoArg) s1)))
             (\<lambda>e s'. (Inl (NetworkError ''Failed to send message: '' e),
                       emit (Log Error ''Failed to send message: '' (ExnArg e)) s')))"

definition mark_as_read :: "string \<Rightarrow> http_outcome \<Rightarrow> 'm ws \<Rightarrow> (exn + unit) \<times> 'm ws" where
  "mark_as_read message_id outcome s =
     (if no_key s then (Inl (AuthenticationError ''API key is required''), s)
      else try_except
             (let s1 = emit (HttpPost (base_url s @ ''/messages/'' @ message_id @ ''/read'')
                               (api_key s) None) s
              in case outcome of
                   RequestFails e \<Rightarrow> (Inl e, s1)
                 | Response status body \<Rightarrow>
                     (case raise_for_status status of
                        Inl e \<Rightarrow> (Inl e, s1)
                      | Inr u \<Rightarrow>
                          (Inr (), emit (Log Debug ''Marked message as read: '' (StrArg message_id)) s1)))
             (\<lambda>e s'. (Inr (), emit (Log Error ''Failed to mark message as read: '' (ExnArg e)) s')))"

definition zero_count :: json where
  "zero_count = JObj [(''count'', JNum 0)]"

definition mark_all_as_read :: "http_outcome \<Rightarrow> 'm ws \<Rightarrow> (exn + json) \<times> 'm ws" where
  "mark_all_as_read outcome s =
     (if no_key s then (Inl (AuthenticationError ''API key is required''), s)
      else try_except
             (let s1 = emit (HttpPost (base_url s @ ''/messages/mark-all-read'') (api_key s) None) s
              in case outcome of
                   RequestFails e \<Rightarrow> (Inl e, s1)
                 | Response status body \<Rightarrow>
                     (case raise_for_status status of
                        Inl e \<Rightarrow> (Inl e, s1)
                      | Inr u \<Rightarrow>
                          (case body of
                             None \<Rightarrow> (Inl JSONDecodeError, s1)
                           | Some j \<Rightarrow> (Inr j, s1))))
             (\<lambda>e s'. (Inr zero_count,
                       emit (Log Error ''Failed to mark all messages as read: '' (ExnArg e)) s')))"

subsection \<open>Waiting for the connection\<close>

text \<open>
  The argument \<open>timeout\<close> is a Python float: a finite value, an infinity or NaN. Rounding
  is not modelled, so a finite float is a real number here.
\<close>

datatype pyfloat = Finite real | PosInf | NegInf | NaN

text \<open>
  \<^verbatim>\<open>x > timeout\<close> for a finite \<open>x\<close>, as the elapsed time is: never true of \<^verbatim>\<open>inf\<close> and of
  NaN, always true of \<^verbatim>\<open>-inf\<close>.
\<close>

fun exceeds :: "real \<Rightarrow> pyfloat \<Rightarrow> bool" where
  "exceeds x (Finite t) = (x > t)"
| "exceeds x PosInf = False"
| "exceeds x NegInf = True"
| "exceeds x NaN = False"

text \<open>
  \<open>wait_until_connected\<close> polls the flag, which the handlers change while the loop
  sleeps. \<open>states k\<close> is the object at the \<open>k\<close>-th test of the loop condition, and
  \<open>clock k\<close> the \<open>k\<close>-th reading of the clock of the event loop, in seconds (reading \<open>0\<close>
  is \<open>start_time\<close>). The loop need not end, so it is a partial function: \<open>None\<close> is a
  loop that runs forever.
\<close>

partial_function (option) wait_loop ::
  "(nat \<Rightarrow> 'm ws) \<Rightarrow> (nat \<Rightarrow> real) \<Rightarrow> pyfloat \<Rightarrow> real \<Rightarrow> nat \<Rightarrow> (exn + unit) option" where
  "wait_loop states clock timeout start_time k =
     (if priv_connected (states k) then Some (Inr ())
      else if exceeds (clock (Suc k) - start_time) timeout
        then Some (Inl (TimeoutError ''Connection timeout''))
        else wait_loop states clock timeout start_time (Suc k))"

definition wait_until_connected ::
  "(nat \<Rightarrow> 'm ws) \<Rightarrow> (nat \<Rightarrow> real) \<Rightarrow> pyfloat \<Rightarrow> (exn + unit) option" where
  "wait_until_connected states clock timeout = wait_loop states clock timeout (clock 0) 0"

subsection \<open>Histories\<close>

text \<open>
  What can happen to the object, one event after the other: a call of a method with
  what the outside world answers, or a pub/sub client invoking a handler on its own
  (\<open>OpNotify\<close>, \<open>OpPublication\<close>). The handlers are closures over the object and do not
  look at the field \<open>_client\<close> before they change the flag, so a notification acts on
  the object whether or not it still holds the client that sends it (\<open>connect\<close>
  replaces a client without disconnecting it).
\<close>

datatype op =
    OpConnect connect_env
  | OpDisconnect transport_call
  | OpNotify notification
  | OpPublication json
  | OpSendMessage string "string option" http_outcome
  | OpMarkAsRead string http_outcome
  | OpMarkAllAsRead http_outcome

fun step :: "(json \<Rightarrow> sub_result) \<Rightarrow> (json \<Rightarrow> exn + 'm) \<Rightarrow> op \<Rightarrow> 'm ws \<Rightarrow> 'm ws" where
  "step subs decode (OpConnect env) s = snd (connect subs env s)"
| "step subs decode (OpDisconnect call) s = snd (disconnect subs call s)"
| "step subs decode (OpNotify n) s = snd (handle subs n s)"
| "step subs decode (OpPublication data) s = snd (on_publication decode data s)"
| "step subs decode (OpSendMessage content to_username outcome) s =
     snd (send_message content to_username outcome s)"
| "step subs decode (OpMarkAsRead message_id outcome) s = snd (mark_as_read message_id outcome s)"
| "step subs decode (OpMarkAllAsRead outcome) s = snd (mark_all_as_read outcome s)"


subsection \<open>Closed forms\<close>

text \<open>
  Functions that say in closed form what the loops above compute; the lemmas below
  relate them to the code.
\<close>

definition subscribe_effects :: "(json \<Rightarrow> sub_result) \<Rightarrow> json \<Rightarrow> 'm effect list" where
  "subscribe_effects subs channel =
     (case subs channel of
        NewSubscriptionRaises e \<Rightarrow> [NewSubscription channel]
      | SubscribeRaises e \<Rightarrow> [NewSubscription channel, Subscribe channel]
      | Subscribed \<Rightarrow>
          [NewSubscription channel, Subscribe channel,
           Log Info ''Subscribed to channel: '' (JsonArg channel)])"

fun subscribe_error :: "sub_result \<Rightarrow> exn + unit" where
  "subscribe_error (NewSubscriptionRaises e) = Inl e"
| "subscribe_error (SubscribeRaises e) = Inl e"
| "subscribe_error Subscribed = Inr ()"

text \<open>The channels of a list up to and including the first one that fails to subscribe.\<close>

fun upto_first_failure :: "(json \<Rightarrow> sub_result) \<Rightarrow> json list \<Rightarrow> json list" where
  "upto_first_failure subs [] = []"
| "upto_first_failure subs (channel # rest) =
     (if subs channel = Subscribed then channel # upto_first_failure subs rest else [channel])"

fun first_failure :: "(json \<Rightarrow> sub_result) \<Rightarrow> json list \<Rightarrow> exn + unit" where
  "first_failure subs [] = Inr ()"
| "first_failure subs (channel # rest) =
     (if subs channel = Subscribed then first_failure subs rest else subscribe_error (subs channel))"

text \<open>The flag after a sequence of notifications, read off the notifications alone.\<close>

fun flag_after :: "notification list \<Rightarrow> bool \<Rightarrow> bool" where
  "flag_after [] b = b"
| "flag_after (Connected # ns) b = flag_after ns True"
| "flag_after (Disconnected # ns) b = flag_after ns False"
| "flag_after (ErrorEvent e # ns) b = flag_after ns b"

text \<open>The messages handed to the message callback, in a trace.\<close>

fun messages_of :: "'m effect list \<Rightarrow> 'm list" where
  "messages_of [] = []"
| "messages_of (CallOnMessage m # es) = m # messages_of es"
| "messages_of (e # es) = messages_of es"

text \<open>The well-formed payloads of a list, decoded.\<close>

fun decoded :: "(json \<Rightarrow> exn + 'm) \<Rightarrow> json list \<Rightarrow> 'm list" where
  "decoded decode [] = []"
| "decoded decode (data # rest) =
     (case decode data of Inl e \<Rightarrow> decoded decode rest | Inr m \<Rightarrow> m # decoded decode rest)"

subsection \<open>Examples\<close>

text \<open>
  A client with a key and all callbacks but the error callback, a client without a key,
  and answers of the outside world. The message model of the examples keeps the
  \<open>content\<close> field only.
\<close>

definition example_client :: "string ws" where
  "example_client =
     init (Some ''secret'') None ''https://api.tokenbowl.ai/''
       (Some (\<lambda>m. Inr ())) (Some (Inr ())) (Some (Inr ())) None"

definition keyless_client :: "string ws" where
  "keyless_client = init None (Some []) ''https://api.tokenbowl.ai'' None None None None"

definition example_info :: json where
  "example_info =
     JObj [(''url'', JStr ''wss://rt.tokenbowl.ai/connection''),
           (''token'', JStr ''t0''),
           (''channels'', JArr [JStr ''room'', JStr ''dm:alice''])]"

definition quiet_call :: transport_call where
  "quiet_call = \<lparr>delivered = [], call_result = Inr ()\<rparr>"

definition all_subscribed :: "json \<Rightarrow> sub_result" where
  "all_subscribed channel = Subscribed"

definition room_fails :: "json \<Rightarrow> sub_result" where
  "room_fails channel =
     (if channel = JStr ''room'' then SubscribeRaises (OtherException ''subscribe failed'')
      else Subscribed)"

definition example_decode :: "json \<Rightarrow> exn + string" where
  "example_decode data =
     (case py_getitem (Some data) ''content'' of
        Inl e \<Rightarrow> Inl e
      | Inr (JStr c) \<Rightarrow> Inr c
      | Inr v \<Rightarrow> Inl (OtherException ''ValidationError''))"

definition ok_env :: connect_env where
  "ok_env =
     \<lparr>bootstrap = Response 200 (Some example_info), create_client = Inr (),
      handshake = \<lparr>delivered = [Connected], call_result = Inr ()\<rparr>\<rparr>"

definition connected_client :: "string ws" where
  "connected_client = snd (connect all_subscribed ok_env example_client)"




definition rejected_env :: connect_env where
  "rejected_env = \<lparr>bootstrap = Response 401 None, create_client = Inr (), handshake = quiet_call\<rparr>"

definition unavailable_env :: connect_env where
  "unavailable_env = \<lparr>bootstrap = Response 503 None, create_client = Inr (), handshake = quiet_call\<rparr>"

definition unreachable_env :: connect_env where
  "unreachable_env =
     \<lparr>bootstrap = RequestFails (RequestError ''ConnectTimeout''), create_client = Inr (),
      handshake = quiet_call\<rparr>"


text \<open>The channels for which a trace has a call of \<^verbatim>\<open>new_subscription\<close>.\<close>

fun attempted :: "'m effect list \<Rightarrow> json list" where
  "attempted [] = []"
| "attempted (NewSubscription channel # es) = channel # attempted es"
| "attempted (e # es) = attempted es"

text \<open>
  The example client after a \<open>connect\<close> that has returned, before any notification of
  the pub/sub client.
\<close>

definition handshaking_client :: "string ws" where
  "handshaking_client =
     snd (connect all_subscribed
            \<lparr>bootstrap = Response 200 (Some example_info), create_client = Inr (),
             handshake = quiet_call\<rparr> example_client)"

definition fragile_client :: "string ws" where
  "fragile_client =
     init (Some ''secret'') None ''https://api.tokenbowl.ai''
       (Some (\<lambda>m. Inl (OtherException ''callback failed''))) None None None"

text \<open>
  Observations for \<open>wait_until_connected\<close>: a clock that advances by a tenth of a second
  from one reading to the next, a client that is never connected, and one that is
  connected from the third test on.
\<close>

definition tick_clock :: "nat \<Rightarrow> real" where
  "tick_clock k = real k / 10"

definition idle_states :: "nat \<Rightarrow> string ws" where
  "idle_states k = example_client"

definition late_states :: "nat \<Rightarrow> string ws" where
  "late_states k = (if k < 2 then example_client else connected_client)"








section \<open>Properties\<close>

subsection \<open>Subscribing\<close>

lemma subscribe_channel_no_client:
  "priv_client s = None \<Longrightarrow> subscribe_channel subs channel s = (Inr (), s)"
  by (simp add: subscribe_channel_def)

lemma subscribe_channel_shape:
  "priv_client s = Some c \<Longrightarrow>
   subscribe_channel subs channel s =
     (subscribe_error (subs channel), s\<lparr>trace := trace s @ subscribe_effects subs channel\<rparr>)"
  by (simp add: subscribe_channel_def subscribe_effects_def emit_def split: sub_result.splits)

lemma subscribe_all_no_client:
  "priv_client s = None \<Longrightarrow> subscribe_all subs channels s = (Inr (), s)"
  by (induction channels) (simp_all add: subscribe_channel_no_client)

lemma subscribe_all_shape:
  "priv_client s = Some c \<Longrightarrow>
   subscribe_all subs channels s =
     (first_failure subs channels,
      s\<lparr>trace := trace s @ concat (map (subscribe_effects subs) (upto_first_failure subs channels))\<rparr>)"
proof (induction channels arbitrary: s)
  case Nil
  then show ?case by simp
next
  case (Cons channel rest)
  let ?s' = "s\<lparr>trace := trace s @ subscribe_effects subs channel\<rparr>"
  have step: "subscribe_channel subs channel s = (subscribe_error (subs channel), ?s')"
    using Cons.prems by (rule subscribe_channel_shape)
  show ?case
  proof (cases "subs channel = Subscribed")
    case True
    have "priv_client ?s' = Some c" using Cons.prems by simp
    from Cons.IH [OF this] True step show ?thesis by simp
  next
    case False
    then obtain e where "subscribe_error (subs channel) = Inl e"
      by (cases "subs channel") auto
    with False step show ?thesis by simp
  qed
qed

lemma subscribe_effects_no_callback:
  "count_list (concat (map (subscribe_effects subs) xs)) CallOnDisconnect = 0"
  by (induction xs) (simp_all add: subscribe_effects_def split: sub_result.splits)

lemma subscribe_all_frame:
  "\<exists>es. snd (subscribe_all subs channels s) = s\<lparr>trace := trace s @ es\<rparr> \<and>
        count_list es CallOnDisconnect = 0"
proof (cases "priv_client s")
  case None
  then have "snd (subscribe_all subs channels s) = s\<lparr>trace := trace s @ []\<rparr>"
    by (simp add: subscribe_all_no_client)
  then show ?thesis by (intro exI [of _ "[]"]) simp
next
  case (Some c)
  then show ?thesis
    by (intro exI [of _ "concat (map (subscribe_effects subs) (upto_first_failure subs channels))"])
       (simp add: subscribe_all_shape subscribe_effects_no_callback)
qed

lemma on_connected_frame:
  "\<exists>es. snd (on_connected subs s) = s\<lparr>priv_connected := True, trace := trace s @ es\<rparr> \<and>
        count_list es CallOnDisconnect = 0"
proof -
  let ?s1 = "emit (Log Info ''Connected to Centrifugo'' NoArg) (s\<lparr>priv_connected := True\<rparr>)"
  obtain r s2 where c: "call0 (on_connect ?s1) CallOnConnect ?s1 = (r, s2)" by force
  then obtain es2 where s2: "s2 = s\<lparr>priv_connected := True, trace := trace s @ es2\<rparr>"
      "count_list es2 CallOnDisconnect = 0"
    by (auto simp: call0_def emit_def split: option.splits)
  show ?thesis
  proof (cases "\<exists>v channels. r = Inr () \<and>
      py_getitem (priv_connection_info s2) ''channels'' = Inr v \<and> py_iter v = Inr channels")
    case True
    then obtain v channels where v: "r = Inr ()"
      "py_getitem (priv_connection_info s2) ''channels'' = Inr v" "py_iter v = Inr channels"
      by blast
    from subscribe_all_frame [of subs channels s2] obtain es where
      "snd (subscribe_all subs channels s2) = s2\<lparr>trace := trace s2 @ es\<rparr>"
      "count_list es CallOnDisconnect = 0"
      by blast
    with s2 v c show ?thesis
      by (intro exI [of _ "es2 @ es"]) (simp add: on_connected_def Let_def)
  next
    case False
    with c have "snd (on_connected subs s) = s2"
      by (auto simp: on_connected_def Let_def split: sum.splits)
    with s2 show ?thesis by auto
  qed
qed

subsection \<open>Delivering notifications\<close>

lemma on_disconnected_frame:
  "\<exists>es. snd (on_disconnected s) = s\<lparr>priv_connected := False, trace := trace s @ es\<rparr> \<and>
        count_list es CallOnDisconnect = (if on_disconnect s = None then 0 else 1)"
  by (cases "on_disconnect s")
     (auto simp: on_disconnected_def call0_def emit_def Let_def)

lemma on_error_event_frame:
  "\<exists>es. snd (on_error_event e s) = s\<lparr>trace := trace s @ es\<rparr> \<and>
        count_list es CallOnDisconnect = 0"
  by (cases "on_error s")
     (auto simp: on_error_event_def emit_def Let_def)

lemma deliver_frame:
  "\<exists>es. deliver subs ns s =
          s\<lparr>priv_connected := flag_after ns (priv_connected s), trace := trace s @ es\<rparr> \<and>
        count_list es CallOnDisconnect =
          (if on_disconnect s = None then 0 else count_list ns Disconnected)"
proof (induction ns arbitrary: s)
  case Nil
  have "s = s\<lparr>priv_connected := priv_connected s, trace := trace s @ []\<rparr>" by simp
  then show ?case by (intro exI [of _ "[]"]) simp
next
  case (Cons n ns)
  show ?case
  proof (cases n)
    case Connected
    from on_connected_frame [of subs s] obtain es1 where
      1: "snd (on_connected subs s) = s\<lparr>priv_connected := True, trace := trace s @ es1\<rparr>"
         "count_list es1 CallOnDisconnect = 0" by blast
    from Cons.IH [of "s\<lparr>priv_connected := True, trace := trace s @ es1\<rparr>"] obtain es2 where
      2: "deliver subs ns (s\<lparr>priv_connected := True, trace := trace s @ es1\<rparr>) =
            s\<lparr>priv_connected := flag_after ns True, trace := trace s @ es1 @ es2\<rparr>"
         "count_list es2 CallOnDisconnect = (if on_disconnect s = None then 0 else count_list ns Disconnected)"
      by auto
    from 1 2 Connected show ?thesis
      by (intro exI [of _ "es1 @ es2"]) simp
  next
    case Disconnected
    from on_disconnected_frame [of s] obtain es1 where
      1: "snd (on_disconnected s) = s\<lparr>priv_connected := False, trace := trace s @ es1\<rparr>"
         "count_list es1 CallOnDisconnect = (if on_disconnect s = None then 0 else 1)" by blast
    from Cons.IH [of "s\<lparr>priv_connected := False, trace := trace s @ es1\<rparr>"] obtain es2 where
      2: "deliver subs ns (s\<lparr>priv_connected := False, trace := trace s @ es1\<rparr>) =
            s\<lparr>priv_connected := flag_after ns False, trace := trace s @ es1 @ es2\<rparr>"
         "count_list es2 CallOnDisconnect = (if on_disconnect s = None then 0 else count_list ns Disconnected)"
      by auto
    from 1 2 Disconnected show ?thesis
      by (intro exI [of _ "es1 @ es2"]) simp
  next
    case (ErrorEvent e)
    from on_error_event_frame [of e s] obtain es1 where
      1: "snd (on_error_event e s) = s\<lparr>trace := trace s @ es1\<rparr>"
         "count_list es1 CallOnDisconnect = 0" by blast
    from Cons.IH [of "s\<lparr>trace := trace s @ es1\<rparr>"] obtain es2 where
      2: "deliver subs ns (s\<lparr>trace := trace s @ es1\<rparr>) =
            s\<lparr>priv_connected := flag_after ns (priv_connected s), trace := trace s @ es1 @ es2\<rparr>"
         "count_list es2 CallOnDisconnect = (if on_disconnect s = None then 0 else count_list ns Disconnected)"
      by auto
    from 1 2 ErrorEvent show ?thesis
      by (intro exI [of _ "es1 @ es2"]) simp
  qed
qed


subsection \<open>connect\<close>

lemma example_client_eval:
  "example_client =
     \<lparr> api_key = Some ''secret'', base_url = ''https://api.tokenbowl.ai'',
       on_message = Some (\<lambda>m. Inr ()), on_connect = Some (Inr ()),
       on_disconnect = Some (Inr ()), on_error = None, priv_client = None,
       priv_connection_info = None, priv_connected = False, trace = [] \<rparr>"
  by (simp add: example_client_def init_def rstrip_def)

lemma connected_client_eval:
  "connected_client =
     \<lparr> api_key = Some ''secret'', base_url = ''https://api.tokenbowl.ai'',
       on_message = Some (\<lambda>m. Inr ()), on_connect = Some (Inr ()),
       on_disconnect = Some (Inr ()), on_error = None,
       priv_client = Some (JStr ''wss://rt.tokenbowl.ai/connection'', JStr ''t0''),
       priv_connection_info = Some example_info, priv_connected = True,
       trace =
         [HttpGet ''https://api.tokenbowl.ai/centrifugo/connection-token'' (Some ''secret''),
          NewClient (JStr ''wss://rt.tokenbowl.ai/connection'') (JStr ''t0''),
          ClientConnect,
          Log Info ''Connected to Centrifugo'' NoArg,
          CallOnConnect,
          NewSubscription (JStr ''room''), Subscribe (JStr ''room''),
          Log Info ''Subscribed to channel: '' (JsonArg (JStr ''room'')),
          NewSubscription (JStr ''dm:alice''), Subscribe (JStr ''dm:alice''),
          Log Info ''Subscribed to channel: '' (JsonArg (JStr ''dm:alice''))] \<rparr>"
  by (simp add: connected_client_def example_client_eval connect_def no_key_def try_except_def
      connect_body_def fetch_connection_info_def emit_def raise_for_status_def is_success_def
      ok_env_def example_info_def on_connected_def call0_def subscribe_channel_def
      all_subscribed_def Let_def)


lemma connect_raises_NetworkError:
  assumes "\<not> no_key s" and "fst (connect subs env s) = Inl e"
  shows "\<exists>cause. e = NetworkError ''Failed to connect to Centrifugo: '' cause"
  using assms
  by (auto simp: connect_def try_except_def split: prod.splits sum.splits)

lemma fetch_fails_request:
  "fetch_connection_info (RequestFails e) s =
     (Inl e, emit (HttpGet (base_url s @ ''/centrifugo/connection-token'') (api_key s)) s)"
  by (simp add: fetch_connection_info_def)

lemma fetch_fails_status:
  "\<not> is_success status \<Longrightarrow>
   fetch_connection_info (Response status body) s =
     (Inl (HTTPStatusError status),
      emit (HttpGet (base_url s @ ''/centrifugo/connection-token'') (api_key s)) s)"
  by (simp add: fetch_connection_info_def raise_for_status_def)

lemma no_key_example: "\<not> no_key example_client"
  by (simp add: example_client_eval no_key_def)

text \<open>
  C5. \<open>connect\<close> on an object without an API key raises \<open>AuthenticationError\<close> at once:
  the object comes back as it was, so its trace has no new entry and no request has
  been made.
\<close>

theorem connect_without_key:
  assumes "no_key s"
  shows "connect subs env s =
           (Inl (AuthenticationError ''API key is required for WebSocket connection''), s) \<and>
         trace (snd (connect subs env s)) = trace s"
  using assms by (simp add: connect_def)

theorem connect_without_key_witness:
  "no_key keyless_client \<and>
   connect all_subscribed ok_env keyless_client =
     (Inl (AuthenticationError ''API key is required for WebSocket connection''), keyless_client) \<and>
   trace (snd (connect all_subscribed ok_env keyless_client)) = []"
  using connect_without_key [of keyless_client all_subscribed ok_env]
  by (simp add: keyless_client_def init_def no_key_def)

text \<open>
  C2 does not hold as stated. With a key configured, a bootstrap request that the
  server answers with 401, and one that it answers with 503, both make \<open>connect\<close> raise
  \<open>NetworkError\<close>, not \<open>AuthenticationError\<close> or \<open>ServerError\<close>.
\<close>

theorem bootstrap_status_counterexample:
  "fst (connect all_subscribed rejected_env example_client) =
     Inl (NetworkError ''Failed to connect to Centrifugo: '' (HTTPStatusError 401)) \<and>
   fst (connect all_subscribed unavailable_env example_client) =
     Inl (NetworkError ''Failed to connect to Centrifugo: '' (HTTPStatusError 503))"
  by (simp add: connect_def no_key_example try_except_def connect_body_def
      rejected_env_def unavailable_env_def fetch_fails_status is_success_def)

text \<open>
  C2, amended. With a key configured, every failure of the bootstrap request makes
  \<open>connect\<close> raise \<open>NetworkError\<close> with the failure as its cause: a request that fails
  (no connection, timeout) and a response whose status is not 2xx, 401 and 5xx among
  them.
\<close>

theorem bootstrap_failures_wrapped:
  assumes "\<not> no_key s"
  shows "(bootstrap env = RequestFails e \<longrightarrow>
            fst (connect subs env s) =
              Inl (NetworkError ''Failed to connect to Centrifugo: '' e)) \<and>
         (bootstrap env = Response status body \<and> \<not> is_success status \<longrightarrow>
            fst (connect subs env s) =
              Inl (NetworkError ''Failed to connect to Centrifugo: '' (HTTPStatusError status)))"
  using assms
  by (simp add: connect_def connect_body_def try_except_def fetch_fails_request fetch_fails_status)

theorem bootstrap_failures_wrapped_witness:
  "\<not> no_key example_client \<and>
   bootstrap unreachable_env = RequestFails (RequestError ''ConnectTimeout'') \<and>
   fst (connect all_subscribed unreachable_env example_client) =
     Inl (NetworkError ''Failed to connect to Centrifugo: '' (RequestError ''ConnectTimeout'')) \<and>
   bootstrap rejected_env = Response 401 None \<and> \<not> is_success 401 \<and>
   fst (connect all_subscribed rejected_env example_client) =
     Inl (NetworkError ''Failed to connect to Centrifugo: '' (HTTPStatusError 401))"
  using bootstrap_failures_wrapped [OF no_key_example, of unreachable_env
          "RequestError ''ConnectTimeout''" all_subscribed 0 None]
        bootstrap_failures_wrapped [OF no_key_example, of rejected_env
          "RequestError ''ConnectTimeout''" all_subscribed 401 None]
  by (simp add: no_key_example unreachable_env_def rejected_env_def is_success_def)





subsection \<open>disconnect\<close>

lemma disconnect_no_client:
  "priv_client s = None \<Longrightarrow> disconnect subs call s = (Inr (), s)"
  by (simp add: disconnect_def)

lemma disconnect_returns:
  assumes "priv_client s = Some c" and "call_result call = Inr ()"
  shows "\<exists>es. disconnect subs call s =
                (Inr (), s\<lparr>priv_client := None, priv_connected := False,
                            trace := trace s @ ClientDisconnect # es\<rparr>) \<and>
              count_list es CallOnDisconnect =
                (if on_disconnect s = None then 0 else count_list (delivered call) Disconnected)"
proof -
  from deliver_frame [of subs "delivered call" "emit ClientDisconnect s"] obtain es where
    d: "deliver subs (delivered call) (emit ClientDisconnect s) =
          (emit ClientDisconnect s)
            \<lparr>priv_connected := flag_after (delivered call) (priv_connected (emit ClientDisconnect s)),
             trace := trace (emit ClientDisconnect s) @ es\<rparr>"
       "count_list es CallOnDisconnect =
          (if on_disconnect (emit ClientDisconnect s) = None then 0
           else count_list (delivered call) Disconnected)"
    by blast
  from assms d show ?thesis
    by (intro exI [of _ es]) (simp add: disconnect_def emit_def Let_def)
qed


lemma disconnect_callbacks:
  assumes "call_result call = Inr ()"
  shows "count_list (trace (snd (disconnect subs call s))) CallOnDisconnect \<le>
           count_list (trace s) CallOnDisconnect + count_list (delivered call) Disconnected"
proof (cases "priv_client s")
  case None
  then show ?thesis by (simp add: disconnect_no_client)
next
  case (Some c)
  from disconnect_returns [OF Some assms, of subs] obtain es where
    "disconnect subs call s =
       (Inr (), s\<lparr>priv_client := None, priv_connected := False,
                   trace := trace s @ ClientDisconnect # es\<rparr>)"
    "count_list es CallOnDisconnect =
       (if on_disconnect s = None then 0 else count_list (delivered call) Disconnected)"
    by blast
  then show ?thesis by simp
qed

lemma trace_grows_disconnect:
  "count_list (trace s) CallOnDisconnect \<le>
     count_list (trace (snd (disconnect subs call s))) CallOnDisconnect"
proof -
  from deliver_frame [of subs "delivered call" "emit ClientDisconnect s"] obtain es where
    "deliver subs (delivered call) (emit ClientDisconnect s) =
          (emit ClientDisconnect s)
            \<lparr>priv_connected := flag_after (delivered call) (priv_connected (emit ClientDisconnect s)),
             trace := trace (emit ClientDisconnect s) @ es\<rparr>"
    by blast
  then show ?thesis
    by (simp add: disconnect_def emit_def Let_def split: option.splits sum.splits)
qed







subsection \<open>The connected handler\<close>

lemma attempted_append: "attempted (xs @ ys) = attempted xs @ attempted ys"
  by (induction xs rule: attempted.induct) simp_all

lemma attempted_subscribe_effects:
  "attempted (concat (map (subscribe_effects subs) xs) :: 'm effect list) = xs"
  by (induction xs) (simp_all add: subscribe_effects_def split: sub_result.splits)

lemma upto_first_failure_all:
  "\<forall>channel \<in> set channels. subs channel = Subscribed \<Longrightarrow>
   upto_first_failure subs channels = channels \<and> first_failure subs channels = Inr ()"
  by (induction channels) simp_all

lemma on_connected_shape:
  assumes "priv_client s = Some c"
    and "priv_connection_info s = Some (JObj kvs)"
    and "map_of kvs ''channels'' = Some (JArr channels)"
    and "on_connect s = None \<or> on_connect s = Some (Inr ())"
  shows "on_connected subs s =
           (first_failure subs channels,
            s\<lparr>priv_connected := True,
              trace := trace s @ Log Info ''Connected to Centrifugo'' NoArg #
                (if on_connect s = None then [] else [CallOnConnect]) @
                concat (map (subscribe_effects subs) (upto_first_failure subs channels))\<rparr>)"
proof -
  let ?es = "Log Info ''Connected to Centrifugo'' NoArg #
               (if on_connect s = None then [] else [CallOnConnect])"
  let ?s2 = "s\<lparr>priv_connected := True, trace := trace s @ ?es\<rparr>"
  have c: "priv_client ?s2 = Some c" using assms(1) by simp
  have "on_connected subs s = subscribe_all subs channels ?s2"
    using assms(2,3,4) by (auto simp: on_connected_def call0_def emit_def Let_def)
  with subscribe_all_shape [OF c, of subs channels] show ?thesis by simp
qed

text \<open>
  C1 does not hold as stated. The bootstrap names the channels \<open>room\<close> and \<open>dm:alice\<close>,
  and the subscribe of \<open>room\<close> fails: the handler of the connected notification raises
  that exception, and nothing is done for \<open>dm:alice\<close>.
\<close>

theorem subscribe_failure_counterexample:
  "on_connect handshaking_client = Some (Inr ()) \<and>
   fst (on_connected room_fails handshaking_client) = Inl (OtherException ''subscribe failed'') \<and>
   trace (snd (on_connected room_fails handshaking_client)) =
     trace handshaking_client @
     [Log Info ''Connected to Centrifugo'' NoArg, CallOnConnect,
      NewSubscription (JStr ''room''), Subscribe (JStr ''room'')] \<and>
   attempted (trace (snd (on_connected room_fails handshaking_client))) = [JStr ''room'']"
  by (simp add: handshaking_client_def example_client_eval connect_def no_key_def try_except_def
      connect_body_def fetch_connection_info_def emit_def raise_for_status_def is_success_def
      quiet_call_def example_info_def on_connected_def call0_def subscribe_channel_def
      room_fails_def Let_def)

text \<open>
  C1, amended. When the connected notification arrives at an object that holds a client
  and whose bootstrap answer lists the channels, the handler sets the flag, invokes the
  connect callback (if there is one; it is assumed to return) and then subscribes to
  the channels in the listed order, up to and including the first channel that fails
  to subscribe: that failure leaves the handler as an exception. When no channel
  fails, all channels are subscribed, in the listed order, and the handler returns.
\<close>

theorem on_connected_subscribes:
  assumes "priv_client s = Some c"
    and "priv_connection_info s = Some (JObj kvs)"
    and "map_of kvs ''channels'' = Some (JArr channels)"
    and "on_connect s = None \<or> on_connect s = Some (Inr ())"
  shows "connected_property (snd (on_connected subs s)) \<and>
         trace (snd (on_connected subs s)) =
           trace s @ Log Info ''Connected to Centrifugo'' NoArg #
             (if on_connect s = None then [] else [CallOnConnect]) @
             concat (map (subscribe_effects subs) (upto_first_failure subs channels)) \<and>
         attempted (trace (snd (on_connected subs s))) =
           attempted (trace s) @ upto_first_failure subs channels \<and>
         fst (on_connected subs s) = first_failure subs channels \<and>
         ((\<forall>channel \<in> set channels. subs channel = Subscribed) \<longrightarrow>
            attempted (trace (snd (on_connected subs s))) = attempted (trace s) @ channels \<and>
            fst (on_connected subs s) = Inr ())"
  using on_connected_shape [OF assms, of subs] upto_first_failure_all [of channels subs]
  by (auto simp: connected_property_def attempted_append attempted_subscribe_effects)

theorem on_connected_subscribes_witness:
  "priv_client handshaking_client = Some (JStr ''wss://rt.tokenbowl.ai/connection'', JStr ''t0'') \<and>
   priv_connection_info handshaking_client = Some example_info \<and>
   on_connect handshaking_client = Some (Inr ()) \<and>
   all_subscribed (JStr ''room'') = Subscribed \<and>
   all_subscribed (JStr ''dm:alice'') = Subscribed \<and>
   attempted (trace (snd (on_connected all_subscribed handshaking_client))) =
     [JStr ''room'', JStr ''dm:alice''] \<and>
   fst (on_connected all_subscribed handshaking_client) = Inr () \<and>
   attempted (trace (snd (on_connected room_fails handshaking_client))) = [JStr ''room''] \<and>
   fst (on_connected room_fails handshaking_client) = Inl (OtherException ''subscribe failed'')"
proof -
  have e: "handshaking_client =
     \<lparr> api_key = Some ''secret'', base_url = ''https://api.tokenbowl.ai'',
       on_message = Some (\<lambda>m. Inr ()), on_connect = Some (Inr ()),
       on_disconnect = Some (Inr ()), on_error = None,
       priv_client = Some (JStr ''wss://rt.tokenbowl.ai/connection'', JStr ''t0''),
       priv_connection_info = Some example_info, priv_connected = False,
       trace =
         [HttpGet ''https://api.tokenbowl.ai/centrifugo/connection-token'' (Some ''secret''),
          NewClient (JStr ''wss://rt.tokenbowl.ai/connection'') (JStr ''t0''),
          ClientConnect] \<rparr>"
    by (simp add: handshaking_client_def example_client_eval connect_def no_key_def try_except_def
      connect_body_def fetch_connection_info_def emit_def raise_for_status_def is_success_def
      quiet_call_def example_info_def Let_def)
  have 1: "priv_client handshaking_client =
             Some (JStr ''wss://rt.tokenbowl.ai/connection'', JStr ''t0'')"
    and 2: "priv_connection_info handshaking_client =
             Some (JObj [(''url'', JStr ''wss://rt.tokenbowl.ai/connection''),
                         (''token'', JStr ''t0''),
                         (''channels'', JArr [JStr ''room'', JStr ''dm:alice''])])"
    and 4: "on_connect handshaking_client = None \<or> on_connect handshaking_client = Some (Inr ())"
    and 5: "attempted (trace handshaking_client) = []"
    by (simp_all add: e example_info_def)
  have 3: "map_of [(''url'', JStr ''wss://rt.tokenbowl.ai/connection''), (''token'', JStr ''t0''),
                   (''channels'', JArr [JStr ''room'', JStr ''dm:alice''])] ''channels'' =
             Some (JArr [JStr ''room'', JStr ''dm:alice''])"
    by simp
  from on_connected_subscribes [OF 1 2 3 4, of all_subscribed]
       on_connected_subscribes [OF 1 2 3 4, of room_fails]
  show ?thesis
    by (simp add: 5 e all_subscribed_def room_fails_def subscribe_effects_def)
qed

subsection \<open>Inbound publications\<close>

lemma messages_of_append: "messages_of (xs @ ys) = messages_of xs @ messages_of ys"
  by (induction xs rule: messages_of.induct) simp_all

lemma on_publication_frame:
  "\<exists>es. on_publication decode data s = (Inr (), s\<lparr>trace := trace s @ es\<rparr>) \<and>
        messages_of es = (if on_message s = None then [] else decoded decode [data])"
proof (cases "on_message s")
  case None
  then have "on_publication decode data s = (Inr (), s\<lparr>trace := trace s @ []\<rparr>)"
    by (simp add: on_publication_def on_publication_body_def try_except_def)
  with None show ?thesis by (intro exI [of _ "[]"]) simp
next
  case (Some cb)
  show ?thesis
  proof (cases "decode data")
    case (Inl e)
    with Some show ?thesis
      by (intro exI [of _ "[Log Error ''Error handling publication: '' (ExnArg e)]"])
         (simp add: on_publication_def on_publication_body_def try_except_def emit_def)
  next
    case (Inr m)
    show ?thesis
    proof (cases "cb m")
      case (Inl e)
      with Some Inr show ?thesis
        by (intro exI [of _ "[CallOnMessage m, Log Error ''Error handling publication: '' (ExnArg e)]"])
           (simp add: on_publication_def on_publication_body_def try_except_def emit_def)
    next
      case Inr2: (Inr u)
      with Some Inr show ?thesis
        by (intro exI [of _ "[CallOnMessage m]"])
           (simp add: on_publication_def on_publication_body_def try_except_def emit_def)
    qed
  qed
qed

lemma publications_frame:
  "\<exists>es. publications decode ps s = (Inr (), s\<lparr>trace := trace s @ es\<rparr>) \<and>
        messages_of es = (if on_message s = None then [] else decoded decode ps)"
proof (induction ps arbitrary: s)
  case Nil
  have "s = s\<lparr>trace := trace s @ []\<rparr>" by simp
  then show ?case by (intro exI [of _ "[]"]) simp
next
  case (Cons p ps)
  from on_publication_frame [of decode p s] obtain es1 where
    1: "on_publication decode p s = (Inr (), s\<lparr>trace := trace s @ es1\<rparr>)"
       "messages_of es1 = (if on_message s = None then [] else decoded decode [p])"
    by blast
  from Cons.IH [of "s\<lparr>trace := trace s @ es1\<rparr>"] obtain es2 where
    2: "publications decode ps (s\<lparr>trace := trace s @ es1\<rparr>) =
          (Inr (), s\<lparr>trace := trace s @ es1 @ es2\<rparr>)"
       "messages_of es2 = (if on_message s = None then [] else decoded decode ps)"
    by auto
  from 1 2 show ?case
    by (intro exI [of _ "es1 @ es2"]) (simp add: messages_of_append split: sum.splits)
qed

text \<open>
  C6. The handler of inbound publications always returns: a payload that does not
  decode, and a message callback that raises, each end in one error line of the log
  and nothing else. So a run of publications is handled to its end, and the message
  callback gets exactly the well-formed ones, decoded, in their order: a malformed
  publication does not keep a later well-formed one from the callback.
\<close>

theorem publication_failures_contained:
  "fst (on_publication decode data s) = Inr () \<and>
   (on_message s = Some cb \<and> decode data = Inl e \<longrightarrow>
      trace (snd (on_publication decode data s)) =
        trace s @ [Log Error ''Error handling publication: '' (ExnArg e)]) \<and>
   (on_message s = Some cb \<and> decode data = Inr m \<and> cb m = Inl e \<longrightarrow>
      trace (snd (on_publication decode data s)) =
        trace s @ [CallOnMessage m, Log Error ''Error handling publication: '' (ExnArg e)]) \<and>
   fst (publications decode ps s) = Inr () \<and>
   (on_message s = Some cb \<longrightarrow>
      messages_of (trace (snd (publications decode ps s))) =
        messages_of (trace s) @ decoded decode ps)"
proof -
  from on_publication_frame [of decode data s]
  have 1: "fst (on_publication decode data s) = Inr ()" by auto
  have 2: "on_message s = Some cb \<Longrightarrow> decode data = Inl e \<Longrightarrow>
      trace (snd (on_publication decode data s)) =
        trace s @ [Log Error ''Error handling publication: '' (ExnArg e)]"
    by (simp add: on_publication_def on_publication_body_def try_except_def emit_def)
  have 3: "on_message s = Some cb \<Longrightarrow> decode data = Inr m \<Longrightarrow> cb m = Inl e \<Longrightarrow>
      trace (snd (on_publication decode data s)) =
        trace s @ [CallOnMessage m, Log Error ''Error handling publication: '' (ExnArg e)]"
    by (simp add: on_publication_def on_publication_body_def try_except_def emit_def)
  from publications_frame [of decode ps s] obtain es where
    4: "publications decode ps s = (Inr (), s\<lparr>trace := trace s @ es\<rparr>)"
       "messages_of es = (if on_message s = None then [] else decoded decode ps)"
    by blast
  from 1 2 3 4 show ?thesis
    by (auto simp: messages_of_append)
qed

theorem publication_failures_contained_witness:
  "on_message example_client = Some (\<lambda>m. Inr ()) \<and>
   example_decode (JObj []) = Inl (KeyError ''content'') \<and>
   trace (snd (on_publication example_decode (JObj []) example_client)) =
     [Log Error ''Error handling publication: '' (ExnArg (KeyError ''content''))] \<and>
   on_message fragile_client = Some (\<lambda>m. Inl (OtherException ''callback failed'')) \<and>
   example_decode (JObj [(''content'', JStr ''hi'')]) = Inr ''hi'' \<and>
   trace (snd (on_publication example_decode (JObj [(''content'', JStr ''hi'')]) fragile_client)) =
     [CallOnMessage ''hi'',
      Log Error ''Error handling publication: '' (ExnArg (OtherException ''callback failed''))] \<and>
   fst (publications example_decode [JObj [], JObj [(''content'', JStr ''hi'')]] example_client) =
     Inr () \<and>
   messages_of (trace (snd (publications example_decode
       [JObj [], JObj [(''content'', JStr ''hi'')]] example_client))) = [''hi'']"
proof -
  have a: "on_message example_client = Some (\<lambda>m. Inr ())" "trace example_client = []"
    by (simp_all add: example_client_eval)
  have b: "on_message fragile_client = Some (\<lambda>m. Inl (OtherException ''callback failed''))"
    "trace fragile_client = []"
    by (simp_all add: fragile_client_def init_def)
  have c: "example_decode (JObj []) = Inl (KeyError ''content'')"
    "example_decode (JObj [(''content'', JStr ''hi'')]) = Inr ''hi''"
    by (simp_all add: example_decode_def)
  from publication_failures_contained [of example_decode "JObj []" example_client
         "\<lambda>m. Inr ()" "KeyError ''content''" "''hi''"
         "[JObj [], JObj [(''content'', JStr ''hi'')]]"]
       publication_failures_contained [of example_decode "JObj [(''content'', JStr ''hi'')]"
         fragile_client "\<lambda>m. Inl (OtherException ''callback failed'')"
         "OtherException ''callback failed''" "''hi''" "[]"]
  show ?thesis
    by (simp add: a b c)
qed

subsection \<open>The request/response operations\<close>

text \<open>
  C9. \<open>mark_as_read\<close> raises \<open>AuthenticationError\<close>, without a request, when no API key is
  configured. With a key it always returns: a request that fails and a response whose
  status is not 2xx leave one error line in the log, after the request, and no
  exception.
\<close>

theorem mark_as_read_best_effort:
  "(no_key s \<longrightarrow>
      mark_as_read message_id outcome s = (Inl (AuthenticationError ''API key is required''), s)) \<and>
   (\<not> no_key s \<longrightarrow> fst (mark_as_read message_id outcome s) = Inr ()) \<and>
   (\<not> no_key s \<and> outcome = RequestFails e \<longrightarrow>
      trace (snd (mark_as_read message_id outcome s)) =
        trace s @ [HttpPost (base_url s @ ''/messages/'' @ message_id @ ''/read'') (api_key s) None,
                   Log Error ''Failed to mark message as read: '' (ExnArg e)]) \<and>
   (\<not> no_key s \<and> outcome = Response status body \<and> \<not> is_success status \<longrightarrow>
      trace (snd (mark_as_read message_id outcome s)) =
        trace s @ [HttpPost (base_url s @ ''/messages/'' @ message_id @ ''/read'') (api_key s) None,
                   Log Error ''Failed to mark message as read: ''
                     (ExnArg (HTTPStatusError status))])"
  by (auto simp: mark_as_read_def try_except_def emit_def raise_for_status_def Let_def
      split: http_outcome.splits)

theorem mark_as_read_best_effort_witness:
  "no_key keyless_client \<and>
   mark_as_read ''m1'' (Response 200 None) keyless_client =
     (Inl (AuthenticationError ''API key is required''), keyless_client) \<and>
   \<not> no_key example_client \<and>
   fst (mark_as_read ''m1'' (RequestFails (RequestError ''ConnectError'')) example_client) = Inr () \<and>
   trace (snd (mark_as_read ''m1'' (RequestFails (RequestError ''ConnectError'')) example_client)) =
     [HttpPost ''https://api.tokenbowl.ai/messages/m1/read'' (Some ''secret'') None,
      Log Error ''Failed to mark message as read: '' (ExnArg (RequestError ''ConnectError''))] \<and>
   \<not> is_success 500 \<and>
   fst (mark_as_read ''m1'' (Response 500 None) example_client) = Inr () \<and>
   trace (snd (mark_as_read ''m1'' (Response 500 None) example_client)) =
     [HttpPost ''https://api.tokenbowl.ai/messages/m1/read'' (Some ''secret'') None,
      Log Error ''Failed to mark message as read: '' (ExnArg (HTTPStatusError 500))]"
proof -
  have k: "no_key keyless_client"
    by (simp add: keyless_client_def init_def no_key_def)
  have t: "trace example_client = []" "base_url example_client = ''https://api.tokenbowl.ai''"
    "api_key example_client = Some ''secret''"
    by (simp_all add: example_client_eval)
  have n: "\<not> is_success 500" by (simp add: is_success_def)
  from mark_as_read_best_effort [of keyless_client "''m1''" "Response 200 None"
         "RequestError ''ConnectError''" 500 None]
       mark_as_read_best_effort [of example_client "''m1''"
         "RequestFails (RequestError ''ConnectError'')" "RequestError ''ConnectError''" 500 None]
       mark_as_read_best_effort [of example_client "''m1''" "Response 500 None"
         "RequestError ''ConnectError''" 500 None]
  show ?thesis
    by (simp add: k t n no_key_example)
qed

text \<open>
  C7. With a key configured, \<open>mark_all_as_read\<close> never raises. A request that fails, a
  response whose status is not 2xx (a server failure among them) and a body that is
  not JSON all give the result \<open>{"count": 0}\<close>; a 2xx response gives the decoded body as
  the server sent it, so the count of the server.
\<close>

theorem mark_all_as_read_never_raises:
  assumes "\<not> no_key s"
  shows "(\<exists>j. fst (mark_all_as_read outcome s) = Inr j) \<and>
         (outcome = RequestFails e \<longrightarrow> fst (mark_all_as_read outcome s) = Inr zero_count) \<and>
         (outcome = Response status body \<and> \<not> is_success status \<longrightarrow>
            fst (mark_all_as_read outcome s) = Inr zero_count) \<and>
         (outcome = Response status None \<longrightarrow> fst (mark_all_as_read outcome s) = Inr zero_count) \<and>
         (outcome = Response status (Some j) \<and> is_success status \<longrightarrow>
            fst (mark_all_as_read outcome s) = Inr j)"
  using assms
  by (auto simp: mark_all_as_read_def try_except_def raise_for_status_def Let_def
      split: http_outcome.splits option.splits)

theorem mark_all_as_read_never_raises_witness:
  "\<not> no_key example_client \<and>
   fst (mark_all_as_read (RequestFails (RequestError ''ReadTimeout'')) example_client) =
     Inr (JObj [(''count'', JNum 0)]) \<and>
   \<not> is_success 500 \<and>
   fst (mark_all_as_read (Response 500 (Some (JObj [(''detail'', JStr ''boom'')]))) example_client) =
     Inr (JObj [(''count'', JNum 0)]) \<and>
   fst (mark_all_as_read (Response 200 None) example_client) = Inr (JObj [(''count'', JNum 0)]) \<and>
   is_success 200 \<and>
   fst (mark_all_as_read (Response 200 (Some (JObj [(''count'', JNum 7)]))) example_client) =
     Inr (JObj [(''count'', JNum 7)])"
proof -
  have n: "\<not> is_success 500" "is_success 200" by (simp_all add: is_success_def)
  from mark_all_as_read_never_raises [OF no_key_example,
         of "RequestFails (RequestError ''ReadTimeout'')" "RequestError ''ReadTimeout''" 500 None JNull]
       mark_all_as_read_never_raises [OF no_key_example,
         of "Response 500 (Some (JObj [(''detail'', JStr ''boom'')]))" "RequestError ''ReadTimeout''"
            500 "Some (JObj [(''detail'', JStr ''boom'')])" JNull]
       mark_all_as_read_never_raises [OF no_key_example,
         of "Response 200 None" "RequestError ''ReadTimeout''" 200 None JNull]
       mark_all_as_read_never_raises [OF no_key_example,
         of "Response 200 (Some (JObj [(''count'', JNum 7)]))" "RequestError ''ReadTimeout''"
            200 None "JObj [(''count'', JNum 7)]"]
  show ?thesis
    by (simp add: n no_key_example zero_count_def)
qed

subsection \<open>Waiting for the connection\<close>

lemma wait_loop_skip:
  assumes "\<And>j. j < n \<Longrightarrow> \<not> priv_connected (states (k + j)) \<and>
                          \<not> exceeds (clock (Suc (k + j)) - start_time) timeout"
  shows "wait_loop states clock timeout start_time k =
         wait_loop states clock timeout start_time (k + n)"
  using assms
proof (induction n arbitrary: k)
  case 0
  show ?case by simp
next
  case (Suc n)
  from Suc.prems [of 0] have 0: "\<not> priv_connected (states k)"
    "\<not> exceeds (clock (Suc k) - start_time) timeout"
    by simp_all
  have "wait_loop states clock timeout start_time (Suc k) =
        wait_loop states clock timeout start_time (Suc k + n)"
  proof (rule Suc.IH)
    fix j assume "j < n"
    then have "Suc j < Suc n" by simp
    from Suc.prems [OF this]
    show "\<not> priv_connected (states (Suc k + j)) \<and>
          \<not> exceeds (clock (Suc (Suc k + j)) - start_time) timeout"
      by simp
  qed
  with 0 show ?case
    by (subst wait_loop.simps) simp
qed

lemma wait_returns:
  assumes "priv_connected (states n)"
    and "\<And>j. j < n \<Longrightarrow> \<not> priv_connected (states j) \<and>
                       \<not> exceeds (clock (Suc j) - clock 0) timeout"
  shows "wait_until_connected states clock timeout = Some (Inr ())"
proof -
  have "wait_loop states clock timeout (clock 0) 0 = wait_loop states clock timeout (clock 0) (0 + n)"
    by (rule wait_loop_skip) (use assms(2) in simp)
  also have "\<dots> = Some (Inr ())"
    using assms(1) by (subst wait_loop.simps) simp
  finally show ?thesis by (simp add: wait_until_connected_def)
qed

lemma wait_times_out:
  assumes "\<not> priv_connected (states n)" and "exceeds (clock (Suc n) - clock 0) timeout"
    and "\<And>j. j < n \<Longrightarrow> \<not> priv_connected (states j) \<and>
                       \<not> exceeds (clock (Suc j) - clock 0) timeout"
  shows "wait_until_connected states clock timeout = Some (Inl (TimeoutError ''Connection timeout''))"
proof -
  have "wait_loop states clock timeout (clock 0) 0 = wait_loop states clock timeout (clock 0) (0 + n)"
    by (rule wait_loop_skip) (use assms(3) in simp)
  also have "\<dots> = Some (Inl (TimeoutError ''Connection timeout''))"
    using assms(1,2) by (subst wait_loop.simps) simp
  finally show ?thesis by (simp add: wait_until_connected_def)
qed

lemma clock_advances:
  fixes clock :: "nat \<Rightarrow> real"
  assumes "\<And>k. clock (Suc k) \<ge> clock k + d"
  shows "clock k \<ge> clock 0 + real k * d"
proof (induction k)
  case 0
  show ?case by simp
next
  case (Suc k)
  from assms [of k] Suc show ?case by (simp add: algebra_simps)
qed

lemma timeout_reached:
  fixes clock :: "nat \<Rightarrow> real"
  assumes "0 < d" and "\<And>k. clock (Suc k) \<ge> clock k + d"
  shows "\<exists>n. clock (Suc n) - clock 0 > t"
proof -
  from assms(1) obtain n :: nat where n: "t < real n * d"
    using ex_less_of_nat_mult by blast
  have "clock n \<ge> clock 0 + real n * d" using assms(2) by (rule clock_advances)
  moreover have "clock (Suc n) \<ge> clock n + d" by (rule assms(2))
  ultimately have "clock (Suc n) - clock 0 > t" using n assms(1) by linarith
  then show ?thesis ..
qed

lemma exceeds_reached:
  fixes clock :: "nat \<Rightarrow> real"
  assumes "0 < d" and "\<And>k. clock (Suc k) \<ge> clock k + d"
    and "timeout \<noteq> PosInf" and "timeout \<noteq> NaN"
  shows "\<exists>n. exceeds (clock (Suc n) - clock 0) timeout"
proof (cases timeout)
  case (Finite t)
  have "\<exists>n. clock (Suc n) - clock 0 > t"
    using assms(1,2) by (rule timeout_reached [where d = d and clock = clock])
  with Finite show ?thesis by simp
qed (use assms(3,4) in simp_all)

lemma wait_never_connected:
  fixes clock :: "nat \<Rightarrow> real"
  assumes "\<And>k. \<not> priv_connected (states k)"
    and "0 < d" and "\<And>k. clock (Suc k) \<ge> clock k + d"
    and "timeout \<noteq> PosInf" and "timeout \<noteq> NaN"
  shows "wait_until_connected states clock timeout = Some (Inl (TimeoutError ''Connection timeout''))"
proof -
  define n where "n = (LEAST n. exceeds (clock (Suc n) - clock 0) timeout)"
  have "\<exists>n. exceeds (clock (Suc n) - clock 0) timeout"
    using assms(2,3,4,5) by (rule exceeds_reached [where d = d and clock = clock])
  then have 1: "exceeds (clock (Suc n) - clock 0) timeout"
    unfolding n_def by (rule LeastI_ex)
  have 2: "\<not> priv_connected (states j) \<and> \<not> exceeds (clock (Suc j) - clock 0) timeout"
    if "j < n" for j
  proof -
    from that have "\<not> exceeds (clock (Suc j) - clock 0) timeout"
      unfolding n_def by (rule not_less_Least)
    with assms(1) show ?thesis by simp
  qed
  from assms(1) [of n] 1 2 show ?thesis by (rule wait_times_out)
qed

lemma wait_loop_Some:
  assumes "wait_loop states clock timeout start_time k = Some y"
  shows "(\<exists>j. priv_connected (states j)) \<or> (\<exists>x. exceeds x timeout)"
  by (rule wait_loop.raw_induct
        [where P = "\<lambda>states clock timeout start_time k y.
                      (\<exists>j. priv_connected (states j)) \<or> (\<exists>x. exceeds x timeout)",
         OF _ assms])
     (auto split: if_splits)

lemma wait_loop_forever:
  assumes "\<And>k. \<not> priv_connected (states k)" and "timeout = PosInf \<or> timeout = NaN"
  shows "wait_loop states clock timeout start_time k = None"
proof (rule ccontr)
  assume "wait_loop states clock timeout start_time k \<noteq> None"
  then obtain y where "wait_loop states clock timeout start_time k = Some y" by auto
  from wait_loop_Some [OF this] assms show False by auto
qed

text \<open>
  C8 does not hold as stated. With \<^verbatim>\<open>timeout=float("inf")\<close> and a client that is never
  connected, the test \<^verbatim>\<open>elapsed > timeout\<close> is never true: \<open>wait_until_connected\<close> neither
  returns nor raises \<open>TimeoutError\<close>, it polls forever.
\<close>

theorem wait_forever_counterexample:
  "wait_until_connected idle_states tick_clock PosInf = None"
proof -
  have "\<not> priv_connected (idle_states k)" for k
    by (simp add: idle_states_def example_client_eval)
  then show ?thesis
    unfolding wait_until_connected_def by (rule wait_loop_forever) simp
qed

text \<open>
  C8, amended. \<open>wait_until_connected\<close> returns at the first test of the flag that finds
  it set, if no earlier test found the timeout exceeded; it raises \<open>TimeoutError\<close> at the
  first test that finds the flag unset and more than \<open>timeout\<close> seconds gone since the
  start. On a client that is never connected it raises \<open>TimeoutError\<close>, and does not run
  forever, for every timeout other than \<^verbatim>\<open>inf\<close> and NaN, provided that the clock advances
  by at least some \<open>d > 0\<close> from one reading to the next, as it does when every
  iteration sleeps. With the timeout \<^verbatim>\<open>inf\<close> or NaN it runs forever on such a client.
\<close>

theorem wait_until_connected_result:
  "(priv_connected (states n) \<and>
    (\<forall>j<n. \<not> priv_connected (states j) \<and> \<not> exceeds (clock (Suc j) - clock 0) timeout) \<longrightarrow>
      wait_until_connected states clock timeout = Some (Inr ())) \<and>
   (\<not> priv_connected (states n) \<and> exceeds (clock (Suc n) - clock 0) timeout \<and>
    (\<forall>j<n. \<not> priv_connected (states j) \<and> \<not> exceeds (clock (Suc j) - clock 0) timeout) \<longrightarrow>
      wait_until_connected states clock timeout =
        Some (Inl (TimeoutError ''Connection timeout''))) \<and>
   ((\<forall>k. \<not> priv_connected (states k)) \<and> 0 < d \<and> (\<forall>k. clock (Suc k) \<ge> clock k + d) \<and>
    timeout \<noteq> PosInf \<and> timeout \<noteq> NaN \<longrightarrow>
      wait_until_connected states clock timeout =
        Some (Inl (TimeoutError ''Connection timeout''))) \<and>
   ((\<forall>k. \<not> priv_connected (states k)) \<and> (timeout = PosInf \<or> timeout = NaN) \<longrightarrow>
      wait_until_connected states clock timeout = None)"
proof (intro conjI impI)
  assume "priv_connected (states n) \<and>
    (\<forall>j<n. \<not> priv_connected (states j) \<and> \<not> exceeds (clock (Suc j) - clock 0) timeout)"
  then show "wait_until_connected states clock timeout = Some (Inr ())"
    by (intro wait_returns [of states n]) auto
next
  assume "\<not> priv_connected (states n) \<and> exceeds (clock (Suc n) - clock 0) timeout \<and>
    (\<forall>j<n. \<not> priv_connected (states j) \<and> \<not> exceeds (clock (Suc j) - clock 0) timeout)"
  then show "wait_until_connected states clock timeout =
      Some (Inl (TimeoutError ''Connection timeout''))"
    by (intro wait_times_out [of states n]) auto
next
  assume "(\<forall>k. \<not> priv_connected (states k)) \<and> 0 < d \<and> (\<forall>k. clock (Suc k) \<ge> clock k + d) \<and>
    timeout \<noteq> PosInf \<and> timeout \<noteq> NaN"
  then show "wait_until_connected states clock timeout =
      Some (Inl (TimeoutError ''Connection timeout''))"
    by (intro wait_never_connected [of states d]) auto
next
  assume "(\<forall>k. \<not> priv_connected (states k)) \<and> (timeout = PosInf \<or> timeout = NaN)"
  then show "wait_until_connected states clock timeout = None"
    unfolding wait_until_connected_def by (intro wait_loop_forever) auto
qed

theorem wait_until_connected_result_witness:
  "priv_connected (late_states 2) \<and> \<not> priv_connected (late_states 0) \<and>
   \<not> priv_connected (late_states 1) \<and>
   \<not> exceeds (tick_clock 1 - tick_clock 0) (Finite 10) \<and>
   \<not> exceeds (tick_clock 2 - tick_clock 0) (Finite 10) \<and>
   wait_until_connected late_states tick_clock (Finite 10) = Some (Inr ()) \<and>
   \<not> priv_connected (idle_states 2) \<and> exceeds (tick_clock (Suc 2) - tick_clock 0) (Finite (1 / 5)) \<and>
   \<not> exceeds (tick_clock 1 - tick_clock 0) (Finite (1 / 5)) \<and>
   \<not> exceeds (tick_clock 2 - tick_clock 0) (Finite (1 / 5)) \<and>
   wait_until_connected idle_states tick_clock (Finite (1 / 5)) =
     Some (Inl (TimeoutError ''Connection timeout'')) \<and>
   (0::real) < 1 / 10 \<and>
   wait_until_connected idle_states tick_clock (Finite 3600) =
     Some (Inl (TimeoutError ''Connection timeout'')) \<and>
   wait_until_connected idle_states tick_clock NaN = None"
proof -
  have a: "priv_connected (late_states 2)"
    by (simp add: late_states_def connected_client_eval)
  have b: "\<forall>j<2. \<not> priv_connected (late_states j) \<and>
                 \<not> exceeds (tick_clock (Suc j) - tick_clock 0) (Finite 10)"
    by (auto simp: late_states_def example_client_eval tick_clock_def)
  have c: "\<not> priv_connected (idle_states 2)" "\<forall>k. \<not> priv_connected (idle_states k)"
    by (simp_all add: idle_states_def example_client_eval)
  have d: "exceeds (tick_clock (Suc 2) - tick_clock 0) (Finite (1 / 5))"
    "\<forall>k. tick_clock (Suc k) \<ge> tick_clock k + 1 / 10"
    by (simp_all add: tick_clock_def field_simps)
  have e: "\<forall>j<2. \<not> priv_connected (idle_states j) \<and>
                 \<not> exceeds (tick_clock (Suc j) - tick_clock 0) (Finite (1 / 5))"
    by (auto simp: idle_states_def example_client_eval tick_clock_def less_Suc_eq numeral_2_eq_2)
  from wait_until_connected_result [of late_states 2 tick_clock "Finite 10" "1 / 10"] a b
  have 1: "wait_until_connected late_states tick_clock (Finite 10) = Some (Inr ())" by blast
  from wait_until_connected_result [of idle_states 2 tick_clock "Finite (1 / 5)" "1 / 10"] c d e
  have 2: "wait_until_connected idle_states tick_clock (Finite (1 / 5)) =
     Some (Inl (TimeoutError ''Connection timeout''))" by blast
  from wait_until_connected_result [of idle_states 2 tick_clock "Finite 3600" "1 / 10"] c d
  have 3: "wait_until_connected idle_states tick_clock (Finite 3600) =
     Some (Inl (TimeoutError ''Connection timeout''))" by simp
  from wait_until_connected_result [of idle_states 2 tick_clock NaN "1 / 10"] c
  have 4: "wait_until_connected idle_states tick_clock NaN = None" by simp
  have g: "\<not> priv_connected (late_states 0)" "\<not> priv_connected (late_states 1)"
    "\<not> exceeds (tick_clock 1 - tick_clock 0) (Finite 10)"
    "\<not> exceeds (tick_clock 2 - tick_clock 0) (Finite 10)"
    "\<not> exceeds (tick_clock 1 - tick_clock 0) (Finite (1 / 5))"
    "\<not> exceeds (tick_clock 2 - tick_clock 0) (Finite (1 / 5))"
    by (simp_all add: late_states_def example_client_eval tick_clock_def)
  from a c(1) d(1) g 1 2 3 4 show ?thesis by simp
qed

subsection \<open>Histories\<close>


















end
